theory Spec2Isabelle
  imports Main "HOL-Library.Sublist"
begin

section \<open>Strings\<close>

text \<open>
  Python's \<^verbatim>\<open>str\<close> is modelled as \<^typ>\<open>string\<close>. The scraped text is taken to be
  ASCII; the few non-ASCII constants of the source (an en dash, two emoji) stand as their
  UTF-8 bytes. On ASCII text \<^verbatim>\<open>str.lower\<close> changes the letters A-Z only, and the white
  space that \<^verbatim>\<open>str.strip\<close> removes is the code points 9-13 and 28-32.
\<close>

definition ascii_uppercase :: string where
  "ascii_uppercase = ''ABCDEFGHIJKLMNOPQRSTUVWXYZ''"

definition ascii_lowercase :: string where
  "ascii_lowercase = ''abcdefghijklmnopqrstuvwxyz''"

definition is_upper :: "char \<Rightarrow> bool" where
  "is_upper c = (c \<in> set ascii_uppercase)"

definition is_lower :: "char \<Rightarrow> bool" where
  "is_lower c = (c \<in> set ascii_lowercase)"

definition is_space :: "char \<Rightarrow> bool" where
  "is_space c = (let n = (of_char c :: nat) in (9 \<le> n \<and> n \<le> 13) \<or> (28 \<le> n \<and> n \<le> 32))"

definition lower_char :: "char \<Rightarrow> char" where
  "lower_char c = (case map_of (zip ascii_uppercase ascii_lowercase) c of None \<Rightarrow> c | Some d \<Rightarrow> d)"

definition upper_char :: "char \<Rightarrow> char" where
  "upper_char c = (case map_of (zip ascii_lowercase ascii_uppercase) c of None \<Rightarrow> c | Some d \<Rightarrow> d)"

definition lower :: "string \<Rightarrow> string" where
  "lower s = map lower_char s"

definition lstrip :: "string \<Rightarrow> string" where
  "lstrip s = dropWhile is_space s"

definition rstrip :: "string \<Rightarrow> string" where
  "rstrip s = rev (dropWhile is_space (rev s))"

definition strip :: "string \<Rightarrow> string" where
  "strip s = rstrip (lstrip s)"

text \<open>\<^verbatim>\<open>p in s\<close> on strings: \<open>p\<close> occurs in \<open>s\<close> as a contiguous block.\<close>

definition str_in :: "string \<Rightarrow> string \<Rightarrow> bool" where
  "str_in p s = sublist p s"

text \<open>\<^verbatim>\<open>s.replace("_", " ")\<close>, \<^verbatim>\<open>s.lstrip("0")\<close> and \<^verbatim>\<open>sep.join(parts)\<close>.\<close>

definition replace_underscores :: "string \<Rightarrow> string" where
  "replace_underscores s = map (\<lambda>c. if c = CHR ''_'' then CHR '' '' else c) s"

definition lstrip_zeros :: "string \<Rightarrow> string" where
  "lstrip_zeros s = dropWhile (\<lambda>c. c = CHR ''0'') s"

fun join :: "string \<Rightarrow> string list \<Rightarrow> string" where
  "join sep [] = []"
| "join sep [x] = x"
| "join sep (x # y # ys) = x @ sep @ join sep (y # ys)"

text \<open>
  \<^verbatim>\<open>str.title\<close>: a letter that follows a letter is lowercased, any other letter is
  uppercased; \<open>prev\<close> tells whether the character before was a letter.
\<close>

fun title_from :: "bool \<Rightarrow> string \<Rightarrow> string" where
  "title_from prev [] = []"
| "title_from prev (c # cs) =
     (if prev then lower_char c else upper_char c) # title_from (is_upper c \<or> is_lower c) cs"

definition title :: "string \<Rightarrow> string" where
  "title s = title_from False s"

section \<open>Regular expressions\<close>

text \<open>
  The patterns of the source are sequences of literals and of repeated character classes,
  one of them closed by a lookahead. \<open>match_here\<close> is the backtracking matcher of
  Python's \<^verbatim>\<open>re\<close> on such a sequence, anchored at the start of \<open>s\<close>: a greedy
  repetition tries its longest run first and gives characters back one by one, a lazy one
  tries the rest of the pattern first and takes one more character when that fails. The
  result is the text matched by each item of the sequence, with the unread rest of \<open>s\<close>;
  \<open>ahead\<close> is the lookahead that closes the pattern.
\<close>

datatype cclass = AnyChar | NotChar char

fun in_class :: "cclass \<Rightarrow> char \<Rightarrow> bool" where
  "in_class AnyChar c = True"
| "in_class (NotChar d) c = (c \<noteq> d)"

datatype atom = Lit string | Star cclass | Plus cclass | Lazy cclass

type_synonym pieces = "string list \<times> string"

definition skip_piece :: "pieces option \<Rightarrow> pieces option" where
  "skip_piece r = map_option (\<lambda>(ps, rest). ([] # ps, rest)) r"

definition lit_piece :: "string \<Rightarrow> pieces option \<Rightarrow> pieces option" where
  "lit_piece l r = map_option (\<lambda>(ps, rest). (l # ps, rest)) r"

text \<open>
  \<open>grow_piece\<close> gives one more character to the repetition at the head of the pattern,
  whose piece is the first of the result.
\<close>

fun grow_piece :: "char \<Rightarrow> pieces option \<Rightarrow> pieces option" where
  "grow_piece c None = None"
| "grow_piece c (Some ([], rest)) = Some ([[c]], rest)"
| "grow_piece c (Some (p # ps, rest)) = Some ((c # p) # ps, rest)"

fun match_here :: "(string \<Rightarrow> bool) \<Rightarrow> atom list \<Rightarrow> string \<Rightarrow> pieces option" where
  "match_here ahead [] s = (if ahead s then Some ([], s) else None)"
| "match_here ahead (Lit l # as) s =
     (if prefix l s then lit_piece l (match_here ahead as (drop (length l) s)) else None)"
| "match_here ahead (Star k # as) [] = skip_piece (match_here ahead as [])"
| "match_here ahead (Star k # as) (c # cs) =
     (if in_class k c
      then (case match_here ahead (Star k # as) cs of
              Some r \<Rightarrow> grow_piece c (Some r)
            | None \<Rightarrow> skip_piece (match_here ahead as (c # cs)))
      else skip_piece (match_here ahead as (c # cs)))"
| "match_here ahead (Plus k # as) [] = None"
| "match_here ahead (Plus k # as) (c # cs) =
     (if in_class k c then grow_piece c (match_here ahead (Star k # as) cs) else None)"
| "match_here ahead (Lazy k # as) [] = skip_piece (match_here ahead as [])"
| "match_here ahead (Lazy k # as) (c # cs) =
     (case match_here ahead as (c # cs) of
        Some r \<Rightarrow> skip_piece (Some r)
      | None \<Rightarrow>
          if in_class k c then grow_piece c (match_here ahead (Lazy k # as) cs) else None)"

definition no_lookahead :: "string \<Rightarrow> bool" where
  "no_lookahead s = True"

text \<open>\<^verbatim>\<open>(?=a|b|c)\<close>: one of the alternatives matches at this place.\<close>

definition lookahead :: "atom list list \<Rightarrow> string \<Rightarrow> bool" where
  "lookahead alts s = list_ex (\<lambda>alt. match_here no_lookahead alt s \<noteq> None) alts"

text \<open>\<^verbatim>\<open>re.search\<close>: the match at the leftmost place where the pattern matches.\<close>

fun re_search :: "(string \<Rightarrow> bool) \<Rightarrow> atom list \<Rightarrow> string \<Rightarrow> string list option" where
  "re_search ahead pat [] = map_option fst (match_here ahead pat [])"
| "re_search ahead pat (c # cs) =
     (case match_here ahead pat (c # cs) of
        Some r \<Rightarrow> Some (fst r)
      | None \<Rightarrow> re_search ahead pat cs)"

text \<open>
  \<^verbatim>\<open>re.findall\<close> and \<^verbatim>\<open>re.sub(pattern, '', s)\<close> scan the string from left to right
  and resume behind each match. Every pattern of the source holds a literal, so a match
  is never empty; \<open>inside\<close> counts the characters still to pass that belong to the
  match found last.
\<close>

definition matched_length :: "pieces \<Rightarrow> nat" where
  "matched_length r = length (concat (fst r))"

fun findall_from :: "nat \<Rightarrow> (string \<Rightarrow> bool) \<Rightarrow> atom list \<Rightarrow> string \<Rightarrow> string list list" where
  "findall_from inside ahead pat [] = []"
| "findall_from inside ahead pat (c # cs) =
     (if inside > 0 then findall_from (inside - 1) ahead pat cs
      else (case match_here ahead pat (c # cs) of
              None \<Rightarrow> findall_from 0 ahead pat cs
            | Some r \<Rightarrow> fst r # findall_from (matched_length r - 1) ahead pat cs))"

definition re_findall :: "(string \<Rightarrow> bool) \<Rightarrow> atom list \<Rightarrow> string \<Rightarrow> string list list" where
  "re_findall ahead pat s = findall_from 0 ahead pat s"

fun sub_from :: "nat \<Rightarrow> atom list \<Rightarrow> string \<Rightarrow> string" where
  "sub_from inside pat [] = []"
| "sub_from inside pat (c # cs) =
     (if inside > 0 then sub_from (inside - 1) pat cs
      else (case match_here no_lookahead pat (c # cs) of
              None \<Rightarrow> c # sub_from 0 pat cs
            | Some r \<Rightarrow> sub_from (matched_length r - 1) pat cs))"

definition re_sub_empty :: "atom list \<Rightarrow> string \<Rightarrow> string" where
  "re_sub_empty pat s = sub_from 0 pat s"

text \<open>The text of a group: the pieces of the items \<open>i, \<dots>, i + n - 1\<close> of the pattern.\<close>

definition group :: "nat \<Rightarrow> nat \<Rightarrow> string list \<Rightarrow> string" where
  "group i n ps = concat (take n (drop i ps))"

subsection \<open>The patterns of the extractor\<close>

text \<open>
  \<^verbatim>\<open>(<div[^>]*class="bw-session"[^>]*>)(.*?)\<close>
  \<^verbatim>\<open>(?=<div[^>]*class="bw-session"|<div class="bw-widget__day|</body>)\<close>, with
  \<^verbatim>\<open>re.DOTALL\<close>: group 1 is items 0-4, group 2 is item 5.
\<close>

definition session_pattern :: "atom list" where
  "session_pattern =
     [Lit ''<div'', Star (NotChar CHR ''>''), Lit ''class=\"bw-session\"'',
      Star (NotChar CHR ''>''), Lit ''>'', Lazy AnyChar]"

definition session_ahead :: "string \<Rightarrow> bool" where
  "session_ahead =
     lookahead
       [[Lit ''<div'', Star (NotChar CHR ''>''), Lit ''class=\"bw-session\"''],
        [Lit ''<div class=\"bw-widget__day''],
        [Lit ''</body>'']]"

text \<open>\<^verbatim>\<open>data-bw-widget-mbo-class-name="([^"]+)"\<close>: group 1 is item 1.\<close>

definition raw_name_pattern :: "atom list" where
  "raw_name_pattern =
     [Lit ''data-bw-widget-mbo-class-name=\"'', Plus (NotChar CHR 0x22), Lit ''\"'']"

text \<open>\<^verbatim>\<open>hc_starttime[^>]*datetime="([^"]+)"\<close>: group 1 is item 3.\<close>

definition start_pattern :: "atom list" where
  "start_pattern =
     [Lit ''hc_starttime'', Star (NotChar CHR ''>''), Lit ''datetime=\"'',
      Plus (NotChar CHR 0x22), Lit ''\"'']"

text \<open>\<^verbatim>\<open>hc_endtime[^>]*datetime="([^"]+)"\<close>: group 1 is item 3.\<close>

definition end_pattern :: "atom list" where
  "end_pattern =
     [Lit ''hc_endtime'', Star (NotChar CHR ''>''), Lit ''datetime=\"'',
      Plus (NotChar CHR 0x22), Lit ''\"'']"

text \<open>\<^verbatim>\<open>class="bw-session__name">(.*?)</div>\<close> with \<^verbatim>\<open>re.DOTALL\<close>: group 1 is item 1.\<close>

definition name_pattern :: "atom list" where
  "name_pattern = [Lit ''class=\"bw-session__name\">'', Lazy AnyChar, Lit ''</div>'']"

text \<open>
  \<^verbatim>\<open><span[^>]*>.*?</span>\<close>, without \<^verbatim>\<open>re.DOTALL\<close>: the dot is any character but
  the line feed.
\<close>

definition span_pattern :: "atom list" where
  "span_pattern =
     [Lit ''<span'', Star (NotChar CHR ''>''), Lit ''>'', Lazy (NotChar CHR 0x0A),
      Lit ''</span>'']"

text \<open>\<^verbatim>\<open><[^>]+>\<close>.\<close>

definition tag_pattern :: "atom list" where
  "tag_pattern = [Lit ''<'', Plus (NotChar CHR ''>''), Lit ''>'']"

text \<open>
  \<^verbatim>\<open>class="bw-session__staff"[^>]*>(.*?)</div>\<close> with \<^verbatim>\<open>re.DOTALL\<close>: group 1 is
  item 3.
\<close>

definition staff_pattern :: "atom list" where
  "staff_pattern =
     [Lit ''class=\"bw-session__staff\"'', Star (NotChar CHR ''>''), Lit ''>'',
      Lazy AnyChar, Lit ''</div>'']"

section \<open>Dates and times\<close>

text \<open>
  A \<^verbatim>\<open>datetime\<close> of the standard library: the calendar fields, and the offset from UTC
  in microseconds for an aware value (\<open>None\<close> for a naive one). The arithmetic follows
  the library's own: days are counted from 1 January of year 1, which is day 1.
\<close>

datatype error = TypeError | KeyError | OverflowError

record datetime =
  dt_year :: int
  dt_month :: int
  dt_day :: int
  dt_hour :: int
  dt_minute :: int
  dt_second :: int
  dt_microsecond :: int
  dt_utcoffset :: "int option"

definition is_leap :: "int \<Rightarrow> bool" where
  "is_leap y = (y mod 4 = 0 \<and> (y mod 100 \<noteq> 0 \<or> y mod 400 = 0))"

definition days_before_year :: "int \<Rightarrow> int" where
  "days_before_year year = (let y = year - 1 in y * 365 + y div 4 - y div 100 + y div 400)"

definition DAYS_IN_MONTH :: "int list" where
  "DAYS_IN_MONTH = [31, 28, 31, 30, 31, 30, 31, 31, 30, 31, 30, 31]"

definition DAYS_BEFORE_MONTH :: "int list" where
  "DAYS_BEFORE_MONTH = [0, 31, 59, 90, 120, 151, 181, 212, 243, 273, 304, 334]"

text \<open>The tables are read for the months 1 to 12 only, the months a \<^verbatim>\<open>datetime\<close> has.\<close>

definition month_entry :: "int list \<Rightarrow> int \<Rightarrow> int" where
  "month_entry table m = (if 1 \<le> m \<and> m \<le> 12 then table ! nat (m - 1) else 0)"

definition days_before_month :: "int \<Rightarrow> int \<Rightarrow> int" where
  "days_before_month y m =
     month_entry DAYS_BEFORE_MONTH m + (if m > 2 \<and> is_leap y then 1 else 0)"

definition ymd2ord :: "int \<Rightarrow> int \<Rightarrow> int \<Rightarrow> int" where
  "ymd2ord y m d = days_before_year y + days_before_month y m + d"

definition DI400Y :: int where "DI400Y = 146097"
definition DI100Y :: int where "DI100Y = 36524"
definition DI4Y :: int where "DI4Y = 1461"
definition MAXORDINAL :: int where "MAXORDINAL = 3652059"

definition ord2ymd :: "int \<Rightarrow> int \<times> int \<times> int" where
  "ord2ymd ordinal =
     (let n = ordinal - 1;
          n400 = n div DI400Y; n = n mod DI400Y;
          n100 = n div DI100Y; n = n mod DI100Y;
          n4 = n div DI4Y; n = n mod DI4Y;
          n1 = n div 365; n = n mod 365;
          year = n400 * 400 + 1 + n100 * 100 + n4 * 4 + n1
      in if n1 = 4 \<or> n100 = 4 then (year - 1, 12, 31)
         else
           let leapyear = (n1 = 3 \<and> (n4 \<noteq> 24 \<or> n100 = 3));
               month = (n + 50) div 32;
               preceding = month_entry DAYS_BEFORE_MONTH month
                             + (if month > 2 \<and> leapyear then 1 else 0)
           in if preceding > n
              then let month = month - 1;
                       preceding = preceding
                         - (month_entry DAYS_IN_MONTH month
                              + (if month = 2 \<and> leapyear then 1 else 0))
                   in (year, month, n - preceding + 1)
              else (year, month, n - preceding + 1))"

definition toordinal :: "datetime \<Rightarrow> int" where
  "toordinal dt = ymd2ord (dt_year dt) (dt_month dt) (dt_day dt)"

definition seconds_of_day :: "datetime \<Rightarrow> int" where
  "seconds_of_day dt = dt_second dt + dt_minute dt * 60 + dt_hour dt * 3600"

text \<open>
  \<^verbatim>\<open>a - b\<close> on two datetimes, as the length of the difference in microseconds. Mixing a
  naive and an aware value raises \<^verbatim>\<open>TypeError\<close>.
\<close>

definition sub_datetime :: "datetime \<Rightarrow> datetime \<Rightarrow> error + int" where
  "sub_datetime a b =
     (let base = ((toordinal a - toordinal b) * 86400
                    + (seconds_of_day a - seconds_of_day b)) * 1000000
                 + (dt_microsecond a - dt_microsecond b)
      in if dt_utcoffset a = dt_utcoffset b then Inr base
         else (case (dt_utcoffset a, dt_utcoffset b) of
                 (Some myoff, Some otoff) \<Rightarrow> Inr (base + otoff - myoff)
               | _ \<Rightarrow> Inl TypeError))"

text \<open>
  \<^verbatim>\<open>int(delta.total_seconds() / 60)\<close>: the minutes of a difference, rounded toward
  zero. The source computes the quotient in floating point; on a difference of whole
  seconds, which is what timestamps without a fraction of a second give, every step of
  it is exact and the result is the integer quotient taken here.
\<close>

definition whole_minutes :: "int \<Rightarrow> int" where
  "whole_minutes us = (if us \<ge> 0 then us div 60000000 else - ((- us) div 60000000))"

text \<open>
  \<^verbatim>\<open>dt + timedelta(minutes=m)\<close>. A \<^verbatim>\<open>timedelta\<close> holds at most 999999999 days and a
  date lies between the days 1 and \<open>MAXORDINAL\<close>; outside, the library raises
  \<^verbatim>\<open>OverflowError\<close>.
\<close>

definition add_minutes :: "datetime \<Rightarrow> int \<Rightarrow> error + datetime" where
  "add_minutes dt m =
     (let total = toordinal dt * 86400 + seconds_of_day dt + m * 60;
          days = total div 86400;
          secs = total mod 86400
      in if \<bar>m div 1440\<bar> > 999999999 \<or> \<bar>days\<bar> > 999999999 then Inl OverflowError
         else if 0 < days \<and> days \<le> MAXORDINAL
         then (case ord2ymd days of
                 (y, mo, d) \<Rightarrow>
                   Inr (dt\<lparr>dt_year := y, dt_month := mo, dt_day := d,
                          dt_hour := secs div 3600, dt_minute := secs mod 3600 div 60,
                          dt_second := secs mod 3600 mod 60\<rparr>))
         else Inl OverflowError)"

subsection \<open>Formatting\<close>

fun digits :: "nat \<Rightarrow> string" where
  "digits n =
     (if n < 10 then [''0123456789'' ! n]
      else digits (n div 10) @ [''0123456789'' ! (n mod 10)])"

definition zfill :: "nat \<Rightarrow> int \<Rightarrow> string" where
  "zfill w n = (let s = digits (nat n) in replicate (w - length s) CHR ''0'' @ s)"

definition DAY_NAMES :: "string list" where
  "DAY_NAMES = [''Monday'', ''Tuesday'', ''Wednesday'', ''Thursday'', ''Friday'',
                ''Saturday'', ''Sunday'']"

text \<open>
  \<^verbatim>\<open>strftime("%Y-%m-%d")\<close>. The year is printed in four digits, as the library
  documents \<^verbatim>\<open>%Y\<close>; this is what every platform prints for the years from 1000 on
  (for earlier years some C libraries leave the leading zeros out).
\<close>

definition strftime_date :: "datetime \<Rightarrow> string" where
  "strftime_date dt =
     zfill 4 (dt_year dt) @ ''-'' @ zfill 2 (dt_month dt) @ ''-'' @ zfill 2 (dt_day dt)"

text \<open>\<^verbatim>\<open>strftime("%A")\<close>: the weekday is \<^verbatim>\<open>(toordinal() + 6) % 7\<close>, Monday being 0.\<close>

definition strftime_day_name :: "datetime \<Rightarrow> string" where
  "strftime_day_name dt = DAY_NAMES ! nat ((toordinal dt + 6) mod 7)"

text \<open>\<^verbatim>\<open>strftime("%I:%M %p")\<close>: the twelve-hour clock.\<close>

definition strftime_clock :: "datetime \<Rightarrow> string" where
  "strftime_clock dt =
     zfill 2 (if dt_hour dt mod 12 = 0 then 12 else dt_hour dt mod 12) @ '':''
       @ zfill 2 (dt_minute dt) @ '' '' @ (if dt_hour dt < 12 then ''AM'' else ''PM'')"

text \<open>\<^verbatim>\<open>strftime("%Y%m%dT%H%M%S")\<close>.\<close>

definition strftime_compact :: "datetime \<Rightarrow> string" where
  "strftime_compact dt =
     zfill 4 (dt_year dt) @ zfill 2 (dt_month dt) @ zfill 2 (dt_day dt) @ ''T''
       @ zfill 2 (dt_hour dt) @ zfill 2 (dt_minute dt) @ zfill 2 (dt_second dt)"

section \<open>Class records and the configuration\<close>

text \<open>
  A class is a Python dict with a fixed set of keys. A key that a dict may lack is an
  optional field: \<open>None\<close> is the absent key, and \<^verbatim>\<open>cls.get(k, d)\<close> is \<open>get_or d\<close>
  of the field.
\<close>

record class_record =
  name :: "string option"
  raw_name :: "string option"
  start_iso :: "string option"
  end_iso :: "string option"
  date :: "string option"
  day :: "string option"
  time :: "string option"
  start_hour :: "int option"
  instructor :: "string option"
  source :: "string option"
  end_time :: "string option"
  duration_minutes :: "int option"

definition get_or :: "'a \<Rightarrow> 'a option \<Rightarrow> 'a" where
  "get_or d v = (case v of None \<Rightarrow> d | Some x \<Rightarrow> x)"

text \<open>The keys of \<^verbatim>\<open>config.yaml\<close> that the pipeline reads; \<open>None\<close> is an absent key.\<close>

record config =
  include_classes :: "string list option"
  exclude_classes :: "string list option"
  earliest_hour :: "int option"
  latest_hour :: "int option"
  calendar_name :: "string option"
  default_class_duration_minutes :: "int option"

section \<open>Extraction\<close>

text \<open>
  \<^verbatim>\<open>datetime.fromisoformat\<close> belongs to the standard library, and the strings it accepts
  differ between Python versions. The pipeline is therefore defined over any parser
  \<open>fromiso\<close>, where \<open>fromiso s = None\<close> stands for \<^verbatim>\<open>ValueError\<close>.
\<close>

type_synonym iso_parser = "string \<Rightarrow> datetime option"

text \<open>
  The body of the loop of \<^verbatim>\<open>parse_bw_widget_html\<close> on one match
  \<open>(opening_tag, content)\<close>: \<open>Inr None\<close> is a \<^verbatim>\<open>continue\<close>, \<open>Inl\<close> an exception
  that nothing in the function catches.
\<close>

definition display_name_of :: "string \<Rightarrow> string \<Rightarrow> string" where
  "display_name_of raw content =
     (let display_name =
            (case re_search no_lookahead name_pattern content of
               None \<Rightarrow> []
             | Some name_block \<Rightarrow>
                 let text = re_sub_empty span_pattern (group 1 1 name_block)
                 in strip (re_sub_empty tag_pattern text))
      in if display_name = [] then title (replace_underscores raw) else display_name)"

definition instructor_of :: "string \<Rightarrow> string" where
  "instructor_of content =
     (case re_search no_lookahead staff_pattern content of
        None \<Rightarrow> []
      | Some staff_block \<Rightarrow> strip (re_sub_empty tag_pattern (group 3 1 staff_block)))"

text \<open>
  The fields that depend on the end timestamp. An end timestamp that does not parse leaves
  the record as it is (the \<^verbatim>\<open>except ValueError: pass\<close>).
\<close>

definition add_end_fields :: "iso_parser \<Rightarrow> string \<Rightarrow> datetime \<Rightarrow> class_record \<Rightarrow> error + class_record" where
  "add_end_fields fromiso end_str start_dt cls =
     (if end_str = [] then Inr cls
      else (case fromiso end_str of
              None \<Rightarrow> Inr cls
            | Some end_dt \<Rightarrow>
                (case sub_datetime end_dt start_dt of
                   Inl e \<Rightarrow> Inl e
                 | Inr us \<Rightarrow>
                     Inr (cls\<lparr>end_time := Some (lstrip_zeros (strftime_clock end_dt)),
                              duration_minutes := Some (whole_minutes us)\<rparr>))))"

definition new_class ::
  "string \<Rightarrow> string \<Rightarrow> string \<Rightarrow> string \<Rightarrow> datetime \<Rightarrow> string \<Rightarrow> string \<Rightarrow> class_record" where
  "new_class display_name raw start_str end_str start_dt staff label =
     \<lparr>name = Some display_name, raw_name = Some raw,
      start_iso = Some start_str, end_iso = Some end_str,
      date = Some (strftime_date start_dt),
      day = Some (strftime_day_name start_dt),
      time = Some (lstrip_zeros (strftime_clock start_dt)),
      start_hour = Some (dt_hour start_dt),
      instructor = Some staff, source = Some label,
      end_time = None, duration_minutes = None\<rparr>"

definition raw_name_of :: "string \<Rightarrow> string" where
  "raw_name_of opening_tag =
     (case re_search no_lookahead raw_name_pattern opening_tag of
        None \<Rightarrow> []
      | Some raw_name_match \<Rightarrow> group 1 1 raw_name_match)"

definition end_iso_of :: "string \<Rightarrow> string" where
  "end_iso_of content =
     (case re_search no_lookahead end_pattern content of
        None \<Rightarrow> []
      | Some end_match \<Rightarrow> group 3 1 end_match)"

definition parse_session :: "iso_parser \<Rightarrow> string \<Rightarrow> string \<times> string \<Rightarrow> error + class_record option" where
  "parse_session fromiso label m =
     (let opening_tag = fst m; content = snd m; raw = raw_name_of opening_tag
      in (case re_search no_lookahead start_pattern content of
            None \<Rightarrow> Inr None
          | Some start_match \<Rightarrow>
              (let start_str = group 3 1 start_match;
                   end_str = end_iso_of content;
                   display_name = display_name_of raw content;
                   staff = instructor_of content
               in (case fromiso start_str of
                     None \<Rightarrow> Inr None
                   | Some start_dt \<Rightarrow>
                       map_sum id Some
                         (add_end_fields fromiso end_str start_dt
                            (new_class display_name raw start_str end_str start_dt staff label))))))"

fun session_loop ::
  "iso_parser \<Rightarrow> string \<Rightarrow> (string \<times> string) list \<Rightarrow> class_record list \<Rightarrow> error + class_record list" where
  "session_loop fromiso label [] classes = Inr classes"
| "session_loop fromiso label (m # matches) classes =
     (case parse_session fromiso label m of
        Inl e \<Rightarrow> Inl e
      | Inr None \<Rightarrow> session_loop fromiso label matches classes
      | Inr (Some cls) \<Rightarrow> session_loop fromiso label matches (classes @ [cls]))"

text \<open>\<^verbatim>\<open>re.findall(session_pattern, html, re.DOTALL)\<close>: the pairs of the two groups.\<close>

definition session_matches :: "string \<Rightarrow> (string \<times> string) list" where
  "session_matches html =
     map (\<lambda>ps. (group 0 5 ps, group 5 1 ps)) (re_findall session_ahead session_pattern html)"

definition parse_bw_widget_html :: "iso_parser \<Rightarrow> string \<Rightarrow> string \<Rightarrow> error + class_record list" where
  "parse_bw_widget_html fromiso html label = session_loop fromiso label (session_matches html) []"

section \<open>Deduplication\<close>

text \<open>
  The loop of \<^verbatim>\<open>main\<close> that keeps the first class of each key
  \<^verbatim>\<open>(cls.get("start_iso", ""), cls.get("name", ""))\<close>; \<open>seen\<close> is the set of keys
  met so far and \<open>unique\<close> the list built so far.
\<close>

definition dedupe_key :: "class_record \<Rightarrow> string \<times> string" where
  "dedupe_key cls = (get_or [] (start_iso cls), get_or [] (name cls))"

fun dedupe_loop ::
  "class_record list \<Rightarrow> (string \<times> string) set \<Rightarrow> class_record list \<Rightarrow> class_record list" where
  "dedupe_loop [] seen unique = unique"
| "dedupe_loop (cls # rest) seen unique =
     (if dedupe_key cls \<notin> seen
      then dedupe_loop rest (insert (dedupe_key cls) seen) (unique @ [cls])
      else dedupe_loop rest seen unique)"

definition dedupe :: "class_record list \<Rightarrow> class_record list" where
  "dedupe all_classes = dedupe_loop all_classes {} []"

section \<open>Filtering\<close>

text \<open>
  \<^verbatim>\<open>[c.lower().strip() for c in config.get(key, []) if c]\<close>: the empty entries are
  dropped first, the others lowercased and stripped.
\<close>

definition patterns :: "string list option \<Rightarrow> string list" where
  "patterns v = map (\<lambda>c. strip (lower c)) (filter (\<lambda>c. c \<noteq> []) (get_or [] v))"

definition combined :: "class_record \<Rightarrow> string" where
  "combined cls = lower (get_or [] (name cls)) @ '' '' @ lower (get_or [] (raw_name cls))"

text \<open>The body of the loop of \<^verbatim>\<open>filter_classes\<close>: each \<^verbatim>\<open>continue\<close> is a rejection.\<close>

definition rejected :: "string list \<Rightarrow> string list \<Rightarrow> int option \<Rightarrow> int option \<Rightarrow> class_record \<Rightarrow> bool" where
  "rejected incl excl earliest latest cls =
     (if incl \<noteq> [] \<and> \<not> list_ex (\<lambda>p. str_in p (combined cls)) incl then True
      else if excl \<noteq> [] \<and> list_ex (\<lambda>p. str_in p (combined cls)) excl then True
      else (case start_hour cls of
              None \<Rightarrow> False
            | Some hour \<Rightarrow>
                if (case earliest of None \<Rightarrow> False | Some e \<Rightarrow> hour < e) then True
                else if (case latest of None \<Rightarrow> False | Some l \<Rightarrow> hour \<ge> l) then True
                else False))"

fun filter_loop ::
  "string list \<Rightarrow> string list \<Rightarrow> int option \<Rightarrow> int option \<Rightarrow> class_record list \<Rightarrow> class_record list \<Rightarrow> class_record list" where
  "filter_loop incl excl earliest latest [] filtered = filtered"
| "filter_loop incl excl earliest latest (cls # rest) filtered =
     (if rejected incl excl earliest latest cls
      then filter_loop incl excl earliest latest rest filtered
      else filter_loop incl excl earliest latest rest (filtered @ [cls]))"

definition filter_classes :: "class_record list \<Rightarrow> config \<Rightarrow> class_record list" where
  "filter_classes classes cfg =
     (let incl = patterns (include_classes cfg);
          excl = patterns (exclude_classes cfg);
          earliest = earliest_hour cfg;
          latest = latest_hour cfg
      in if incl = [] \<and> excl = [] \<and> earliest = None \<and> latest = None then classes
         else filter_loop incl excl earliest latest classes [])"

section \<open>Calendar generation\<close>

definition LOCATION :: string where
  "LOCATION = ''Tice Creek Fitness Center, 1751 Tice Creek Dr, Walnut Creek, CA 94595''"

definition default_calendar_name :: string where
  "default_calendar_name =
     ''Tice Creek Fitness '' @ [CHR 0xE2, CHR 0x80, CHR 0x93] @ '' Mom'' @ [CHR 0x27]
       @ ''s Classes''"

definition swimmer :: string where
  "swimmer = [CHR 0xF0, CHR 0x9F, CHR 0x8F, CHR 0x8A]"

definition weight_lifter :: string where
  "weight_lifter = [CHR 0xF0, CHR 0x9F, CHR 0x8F, CHR 0x8B, CHR 0xEF, CHR 0xB8, CHR 0x8F]"

definition calendar_header :: "string \<Rightarrow> string list" where
  "calendar_header cal_name =
     [''BEGIN:VCALENDAR'', ''VERSION:2.0'',
      ''PRODID:-//Tice Creek Calendar Sync//EN'',
      ''X-WR-CALNAME:'' @ cal_name,
      ''X-WR-TIMEZONE:America/Los_Angeles'',
      ''CALSCALE:GREGORIAN'', ''METHOD:PUBLISH'',
      ''BEGIN:VTIMEZONE'', ''TZID:America/Los_Angeles'',
      ''BEGIN:DAYLIGHT'', ''TZOFFSETFROM:-0800'', ''TZOFFSETTO:-0700'',
      ''TZNAME:PDT'',
      ''DTSTART:19700308T020000'',
      ''RRULE:FREQ=YEARLY;BYMONTH=3;BYDAY=2SU'', ''END:DAYLIGHT'',
      ''BEGIN:STANDARD'', ''TZOFFSETFROM:-0700'', ''TZOFFSETTO:-0800'',
      ''TZNAME:PST'',
      ''DTSTART:19701101T020000'',
      ''RRULE:FREQ=YEARLY;BYMONTH=11;BYDAY=1SU'', ''END:STANDARD'',
      ''END:VTIMEZONE'']"

text \<open>
  What \<^verbatim>\<open>generate_ics\<close> takes from outside the program: the parser \<open>fromiso\<close>, the hash
  \<^verbatim>\<open>hashlib.md5(s.encode()).hexdigest()\<close> as \<open>md5\<close>, and the reading \<open>now\<close> of the
  clock by \<^verbatim>\<open>datetime.utcnow()\<close>.
\<close>

definition effective_duration :: "int \<Rightarrow> class_record \<Rightarrow> int" where
  "effective_duration default_dur cls =
     (let dur = get_or default_dur (duration_minutes cls)
      in if dur \<le> 0 then default_dur else dur)"

definition description_of :: "string \<Rightarrow> string \<Rightarrow> string" where
  "description_of staff src =
     (let desc_parts = (if staff \<noteq> [] then [''Instructor: '' @ staff] else [])
                       @ (if src \<noteq> [] then [''Schedule: '' @ title (replace_underscores src)] else [])
                       @ [''Auto-synced from ticefitnesscenter.com'']
      in join [CHR 0x5C, CHR ''n''] desc_parts)"

definition event_lines ::
  "(string \<Rightarrow> string) \<Rightarrow> datetime \<Rightarrow> class_record \<Rightarrow> string \<Rightarrow> datetime \<Rightarrow> datetime \<Rightarrow> string \<Rightarrow> string list" where
  "event_lines md5 now cls start_str start end_dt nm =
     (let is_water = list_ex (\<lambda>w. str_in w (lower nm)) [''aqua'', ''water'', ''swim'', ''pool''];
          emoji = (if is_water then swimmer else weight_lifter);
          description = description_of (get_or [] (instructor cls)) (get_or [] (source cls));
          uid_str = nm @ ''-'' @ get_or [] (date cls) @ ''-'' @ start_str;
          uid = take 16 (md5 uid_str)
      in [''BEGIN:VEVENT'',
          ''UID:'' @ uid @ ''@tice-creek-sync'',
          ''DTSTAMP:'' @ strftime_compact now @ ''Z'',
          ''DTSTART;TZID=America/Los_Angeles:'' @ strftime_compact start,
          ''DTEND;TZID=America/Los_Angeles:'' @ strftime_compact end_dt,
          ''SUMMARY:'' @ emoji @ '' '' @ nm,
          ''DESCRIPTION:'' @ description,
          ''LOCATION:'' @ LOCATION,
          ''STATUS:CONFIRMED'', ''TRANSP:TRANSPARENT'',
          ''END:VEVENT''])"

text \<open>
  The body of the loop of \<^verbatim>\<open>generate_ics\<close> on one class: \<open>Inr None\<close> is a
  \<^verbatim>\<open>continue\<close>, \<open>Inr (Some ls)\<close> the lines of the entry, \<open>Inl\<close> an exception.
\<close>

definition event_of ::
  "iso_parser \<Rightarrow> (string \<Rightarrow> string) \<Rightarrow> datetime \<Rightarrow> int \<Rightarrow> class_record \<Rightarrow> error + string list option" where
  "event_of fromiso md5 now default_dur cls =
     (let start_str = get_or [] (start_iso cls)
      in if start_str = [] then Inr None
         else (case fromiso start_str of
                 None \<Rightarrow> Inr None
               | Some start \<Rightarrow>
                   (case add_minutes start (effective_duration default_dur cls) of
                      Inl e \<Rightarrow> Inl e
                    | Inr end_dt \<Rightarrow>
                        (case name cls of
                           None \<Rightarrow> Inl KeyError
                         | Some nm \<Rightarrow>
                             Inr (Some (event_lines md5 now cls start_str start end_dt nm))))))"

fun ics_loop ::
  "iso_parser \<Rightarrow> (string \<Rightarrow> string) \<Rightarrow> datetime \<Rightarrow> int \<Rightarrow> class_record list \<Rightarrow> string list \<Rightarrow> error + string list" where
  "ics_loop fromiso md5 now default_dur [] lines = Inr lines"
| "ics_loop fromiso md5 now default_dur (cls # rest) lines =
     (case event_of fromiso md5 now default_dur cls of
        Inl e \<Rightarrow> Inl e
      | Inr None \<Rightarrow> ics_loop fromiso md5 now default_dur rest lines
      | Inr (Some ls) \<Rightarrow> ics_loop fromiso md5 now default_dur rest (lines @ ls))"

text \<open>The lines of the document, before \<^verbatim>\<open>"\r\n".join(lines)\<close>.\<close>

definition ics_lines ::
  "iso_parser \<Rightarrow> (string \<Rightarrow> string) \<Rightarrow> datetime \<Rightarrow> class_record list \<Rightarrow> config \<Rightarrow> error + string list" where
  "ics_lines fromiso md5 now classes cfg =
     (let cal_name = get_or default_calendar_name (calendar_name cfg);
          default_dur = get_or 45 (default_class_duration_minutes cfg)
      in case ics_loop fromiso md5 now default_dur classes (calendar_header cal_name) of
           Inl e \<Rightarrow> Inl e
         | Inr lines \<Rightarrow> Inr (lines @ [''END:VCALENDAR'']))"

definition generate_ics ::
  "iso_parser \<Rightarrow> (string \<Rightarrow> string) \<Rightarrow> datetime \<Rightarrow> class_record list \<Rightarrow> config \<Rightarrow> error + string" where
  "generate_ics fromiso md5 now classes cfg =
     (case ics_lines fromiso md5 now classes cfg of
        Inl e \<Rightarrow> Inl e
      | Inr lines \<Rightarrow> Inr (join [CHR 0x0D, CHR 0x0A] lines))"

section \<open>A parser for evaluation\<close>

text \<open>
  The timestamps of the widget have the form \<^verbatim>\<open>2026-02-16T10:00\<close>. On a string of
  this form \<^verbatim>\<open>datetime.fromisoformat\<close> gives, in every version of the library, the
  naive datetime computed here, or \<^verbatim>\<open>ValueError\<close> when a field is out of range.
  \<open>widget_fromiso\<close> instantiates the parser where a property is evaluated on a concrete
  input; it is used on strings of this form, and on strings that no version accepts.
\<close>

definition digit_of :: "char \<Rightarrow> int option" where
  "digit_of c = (if c \<in> set ''0123456789'' then Some (int (of_char c) - 48) else None)"

fun number_from :: "int \<Rightarrow> string \<Rightarrow> int option" where
  "number_from acc [] = Some acc"
| "number_from acc (c # cs) =
     (case digit_of c of None \<Rightarrow> None | Some d \<Rightarrow> number_from (acc * 10 + d) cs)"

definition days_in_month :: "int \<Rightarrow> int \<Rightarrow> int" where
  "days_in_month y m = (if m = 2 \<and> is_leap y then 29 else month_entry DAYS_IN_MONTH m)"

definition widget_fromiso :: iso_parser where
  "widget_fromiso s =
     (if length s = 16 \<and> s ! 4 = CHR ''-'' \<and> s ! 7 = CHR ''-'' \<and> s ! 10 = CHR ''T''
         \<and> s ! 13 = CHR '':''
      then (case (number_from 0 (take 4 s), number_from 0 (take 2 (drop 5 s)),
                  number_from 0 (take 2 (drop 8 s)), number_from 0 (take 2 (drop 11 s)),
                  number_from 0 (take 2 (drop 14 s))) of
              (Some y, Some m, Some d, Some h, Some mi) \<Rightarrow>
                if 1 \<le> y \<and> 1 \<le> m \<and> m \<le> 12 \<and> 1 \<le> d \<and> d \<le> days_in_month y m
                   \<and> h \<le> 23 \<and> mi \<le> 59
                then Some \<lparr>dt_year = y, dt_month = m, dt_day = d, dt_hour = h,
                            dt_minute = mi, dt_second = 0, dt_microsecond = 0,
                            dt_utcoffset = None\<rparr>
                else None
            | _ \<Rightarrow> None)
      else None)"

section \<open>Notions used in the properties\<close>

text \<open>
  The classes that deduplication keeps, computed without the accumulator: \<open>seen\<close> holds
  the keys met so far.
\<close>

fun keep_first :: "(string \<times> string) set \<Rightarrow> class_record list \<Rightarrow> class_record list" where
  "keep_first seen [] = []"
| "keep_first seen (cls # rest) =
     (if dedupe_key cls \<in> seen then keep_first seen rest
      else cls # keep_first (insert (dedupe_key cls) seen) rest)"

text \<open>
  The start timestamp that \<^verbatim>\<open>generate_ics\<close> asks for: present, not empty, and accepted
  by the parser.
\<close>

definition parseable_start :: "iso_parser \<Rightarrow> class_record \<Rightarrow> bool" where
  "parseable_start fromiso cls =
     (get_or [] (start_iso cls) \<noteq> [] \<and> fromiso (get_or [] (start_iso cls)) \<noteq> None)"


text \<open>\<^verbatim>\<open>config.get("default_class_duration_minutes", 45)\<close>.\<close>

definition default_duration :: "config \<Rightarrow> int" where
  "default_duration cfg = get_or 45 (default_class_duration_minutes cfg)"

section \<open>Sample inputs\<close>

text \<open>
  Concrete markup, records and configurations, on which the properties below are
  evaluated. \<open>zero_digest\<close> stands in for the hash and \<open>sample_now\<close> for the clock.
\<close>

definition sample_class :: "string \<Rightarrow> string \<Rightarrow> int \<Rightarrow> class_record" where
  "sample_class nm raw h =
     \<lparr>name = Some nm, raw_name = Some raw, start_iso = Some ''2026-02-16T10:00'',
      end_iso = Some [], date = Some ''2026-02-16'', day = Some ''Monday'',
      time = Some ''10:00 AM'', start_hour = Some h, instructor = Some [],
      source = Some ''group_fitness'', end_time = None, duration_minutes = None\<rparr>"

definition no_config :: config where
  "no_config = \<lparr>include_classes = None, exclude_classes = None, earliest_hour = None,
                 latest_hour = None, calendar_name = None,
                 default_class_duration_minutes = None\<rparr>"

definition zero_digest :: "string \<Rightarrow> string" where
  "zero_digest s = replicate 32 CHR ''0''"

definition sample_now :: datetime where
  "sample_now = \<lparr>dt_year = 2026, dt_month = 2, dt_day = 15, dt_hour = 8, dt_minute = 30,
                  dt_second = 0, dt_microsecond = 0, dt_utcoffset = None\<rparr>"

definition water_class :: class_record where
  "water_class =
     \<lparr>name = Some ''Water Aerobics'', raw_name = Some ''water_aerobics'',
      start_iso = Some ''2026-02-16T10:00'', end_iso = Some ''2026-02-16T11:00'',
      date = Some ''2026-02-16'', day = Some ''Monday'', time = Some ''10:00 AM'',
      start_hour = Some 10, instructor = Some ''CATHY STEEN'', source = Some ''aquatics'',
      end_time = Some ''11:00 AM'', duration_minutes = Some 60\<rparr>"

definition spin_class :: class_record where
  "spin_class =
     \<lparr>name = Some ''Spin Class'', raw_name = Some ''spin_class'',
      start_iso = Some ''2026-02-16T06:00'', end_iso = Some [],
      date = Some ''2026-02-16'', day = Some ''Monday'', time = Some ''6:00 AM'',
      start_hour = Some 6, instructor = Some [], source = Some ''group_fitness'',
      end_time = None, duration_minutes = None\<rparr>"




definition early_end_class :: class_record where
  "early_end_class =
     water_class\<lparr>name := Some ''Lap Swim'', start_iso := Some ''2026-02-17T09:00'',
                   end_iso := Some ''2026-02-17T08:30'', date := Some ''2026-02-17'',
                   day := Some ''Tuesday'', time := Some ''9:00 AM'', start_hour := Some 9,
                   end_time := Some ''8:30 AM'', duration_minutes := Some (- 30)\<rparr>"

definition water_tag :: string where
  "water_tag = ''<div class=\"bw-session\" data-bw-widget-mbo-class-name=\"water_aerobics\">''"

definition water_content :: string where
  "water_content =
     ''<time class=\"hc_starttime\" datetime=\"2026-02-16T10:00\"></time>''
     @ ''<time class=\"hc_endtime\" datetime=\"2026-02-16T11:00\"></time>''
     @ ''<div class=\"bw-session__name\">Water Aerobics</div>''
     @ ''<div class=\"bw-session__staff\">CATHY STEEN</div></div>''"

definition plain_tag :: string where
  "plain_tag = ''<div class=\"bw-session\">''"

definition untimed_content :: string where
  "untimed_content = ''<div class=\"bw-session__name\">Yoga</div></div>''"

definition garbled_content :: string where
  "garbled_content =
     ''<time class=\"hc_starttime\" datetime=\"soon\"></time>''
     @ ''<div class=\"bw-session__name\">Pilates</div></div>''"

definition spin_tag :: string where
  "spin_tag = ''<div class=\"bw-session\" data-bw-widget-mbo-class-name=\"spin_class\">''"

definition spin_content :: string where
  "spin_content = ''<time class=\"hc_starttime\" datetime=\"2026-02-16T06:00\"></time></div>''"

definition sample_html :: string where
  "sample_html =
     ''<html><body>'' @ water_tag @ water_content @ plain_tag @ untimed_content
     @ plain_tag @ garbled_content @ spin_tag @ spin_content @ ''</body></html>''"




section \<open>Properties of the extractor\<close>

lemma map_sum_Some_not_skip: "map_sum id Some x \<noteq> Inr None"
  by (cases x) simp_all

lemma parse_session_skip_iff:
  "parse_session fromiso label m = Inr None \<longleftrightarrow>
     (case re_search no_lookahead start_pattern (snd m) of
        None \<Rightarrow> True
      | Some start_match \<Rightarrow> fromiso (group 3 1 start_match) = None)"
  by (simp add: parse_session_def Let_def map_sum_Some_not_skip split: option.splits)

lemma session_loop_acc:
  "session_loop fromiso label ms acc = map_sum id ((@) acc) (session_loop fromiso label ms [])"
proof (induction ms arbitrary: acc)
  case Nil
  show ?case by simp
next
  case (Cons m ms)
  show ?case
  proof (cases "parse_session fromiso label m")
    case (Inl e)
    then show ?thesis by simp
  next
    case (Inr r)
    show ?thesis
    proof (cases r)
      case None
      with Inr Cons.IH [of acc] show ?thesis by simp
    next
      case (Some cls)
      with Inr Cons.IH [of "acc @ [cls]"] Cons.IH [of "[cls]"] show ?thesis
        by (cases "session_loop fromiso label ms []") simp_all
    qed
  qed
qed

lemma session_loop_append:
  "session_loop fromiso label (xs @ ys) acc =
     (case session_loop fromiso label xs acc of
        Inl e \<Rightarrow> Inl e
      | Inr classes \<Rightarrow> session_loop fromiso label ys classes)"
  by (induction xs arbitrary: acc) (simp_all split: sum.splits option.splits)

lemma session_loop_skip:
  "parse_session fromiso label m = Inr None \<Longrightarrow>
     session_loop fromiso label (xs @ m # ys) acc = session_loop fromiso label (xs @ ys) acc"
  by (simp add: session_loop_append split: sum.splits)


lemma sample_html_matches:
  "session_matches sample_html
     = [(water_tag, water_content), (plain_tag, untimed_content),
        (plain_tag, garbled_content), (spin_tag, spin_content)]"
  by code_simp

lemma sample_html_classes:
  "parse_bw_widget_html widget_fromiso sample_html ''aquatics''
     = Inr [water_class, spin_class\<lparr>source := Some ''aquatics''\<rparr>]"
  by code_simp

text \<open>
  Claim C1. Let \<open>(opening_tag, content)\<close> be one of the fragments that the session
  pattern finds in the markup, with the fragments \<open>before\<close> it and \<open>after\<close> it. When
  the content has no start timestamp attribute, or the parser rejects its value, the
  fragment gives no record: the result is that of the fragments before and after alone,
  the records of the former followed by the records of the latter.
\<close>

theorem fragment_without_start_is_dropped:
  assumes "session_matches html = before @ (opening_tag, content) # after"
    and "case re_search no_lookahead start_pattern content of
           None \<Rightarrow> True
         | Some start_match \<Rightarrow> fromiso (group 3 1 start_match) = None"
  shows "parse_session fromiso label (opening_tag, content) = Inr None
         \<and> parse_bw_widget_html fromiso html label = session_loop fromiso label (before @ after) []
         \<and> parse_bw_widget_html fromiso html label
             = (case session_loop fromiso label before [] of
                  Inl e \<Rightarrow> Inl e
                | Inr classes \<Rightarrow> map_sum id ((@) classes) (session_loop fromiso label after []))"
proof -
  from assms(2) have skip: "parse_session fromiso label (opening_tag, content) = Inr None"
    by (simp add: parse_session_skip_iff)
  then have "parse_bw_widget_html fromiso html label
               = session_loop fromiso label (before @ after) []"
    by (simp add: parse_bw_widget_html_def assms(1) session_loop_skip)
  moreover have "session_loop fromiso label (before @ after) []
                   = (case session_loop fromiso label before [] of
                        Inl e \<Rightarrow> Inl e
                      | Inr classes \<Rightarrow> map_sum id ((@) classes) (session_loop fromiso label after []))"
    by (simp add: session_loop_append session_loop_acc [symmetric] split: sum.splits)
  ultimately show ?thesis using skip by simp
qed

theorem fragment_without_start_is_dropped_witness:
  "parse_bw_widget_html widget_fromiso sample_html ''aquatics''
     = session_loop widget_fromiso ''aquatics''
         ([(water_tag, water_content)] @ [(plain_tag, garbled_content), (spin_tag, spin_content)]) []
   \<and> parse_bw_widget_html widget_fromiso sample_html ''aquatics''
     = session_loop widget_fromiso ''aquatics''
         ([(water_tag, water_content), (plain_tag, untimed_content)] @ [(spin_tag, spin_content)]) []
   \<and> parse_bw_widget_html widget_fromiso sample_html ''aquatics''
     = Inr [water_class, spin_class\<lparr>source := Some ''aquatics''\<rparr>]"
proof -
  have untimed: "case re_search no_lookahead start_pattern untimed_content of
                   None \<Rightarrow> True
                 | Some start_match \<Rightarrow> widget_fromiso (group 3 1 start_match) = None"
    by code_simp
  have garbled: "case re_search no_lookahead start_pattern garbled_content of
                   None \<Rightarrow> True
                 | Some start_match \<Rightarrow> widget_fromiso (group 3 1 start_match) = None"
    by code_simp
  have split1: "session_matches sample_html
                  = [(water_tag, water_content)] @ (plain_tag, untimed_content)
                      # [(plain_tag, garbled_content), (spin_tag, spin_content)]"
    and split2: "session_matches sample_html
                  = [(water_tag, water_content), (plain_tag, untimed_content)]
                      @ (plain_tag, garbled_content) # [(spin_tag, spin_content)]"
    by (simp_all add: sample_html_matches)
  show ?thesis
    using fragment_without_start_is_dropped [OF split1 untimed, of "''aquatics''"]
          fragment_without_start_is_dropped [OF split2 garbled, of "''aquatics''"]
          sample_html_classes
    by simp
qed







section \<open>Properties of deduplication\<close>

lemma dedupe_loop_keep_first: "dedupe_loop xs seen unique = unique @ keep_first seen xs"
  by (induction xs arbitrary: seen unique) simp_all

lemma dedupe_keep_first: "dedupe xs = keep_first {} xs"
  by (simp add: dedupe_def dedupe_loop_keep_first)

lemma keep_first_keys_new: "x \<in> set (keep_first seen xs) \<Longrightarrow> dedupe_key x \<notin> seen"
  by (induction xs arbitrary: seen) (auto split: if_splits)

lemma keep_first_distinct: "distinct (map dedupe_key (keep_first seen xs))"
  by (induction xs arbitrary: seen) (auto dest: keep_first_keys_new)

lemma keep_first_id:
  "distinct (map dedupe_key xs) \<Longrightarrow> dedupe_key ` set xs \<inter> seen = {} \<Longrightarrow> keep_first seen xs = xs"
  by (induction xs arbitrary: seen) auto

lemma keep_first_length: "length (keep_first seen xs) \<le> length xs"
  by (induction xs arbitrary: seen) (auto intro: le_SucI)

lemma keep_first_subseq: "subseq (keep_first seen xs) xs"
  by (induction xs arbitrary: seen) auto

lemma keep_first_index:
  "keep_first seen xs =
     map (\<lambda>i. xs ! i)
       (filter (\<lambda>i. dedupe_key (xs ! i) \<notin> seen \<union> dedupe_key ` set (take i xs)) [0..<length xs])"
proof (induction xs arbitrary: seen)
  case Nil
  show ?case by simp
next
  case (Cons x xs)
  have upt: "[0..<length (x # xs)] = 0 # map Suc [0..<length xs]"
    by (simp add: upt_conv_Cons map_Suc_upt del: upt_Suc)
  show ?case
  proof (cases "dedupe_key x \<in> seen")
    case True
    then have "(k \<notin> seen \<union> insert (dedupe_key x) A) = (k \<notin> seen \<union> A)" for k A by blast
    with True Cons.IH [of seen] show ?thesis
      unfolding upt by (simp add: filter_map comp_def del: Un_insert_right Un_iff)
  next
    case False
    have "seen \<union> insert (dedupe_key x) A = insert (dedupe_key x) seen \<union> A" for A by blast
    with False Cons.IH [of "insert (dedupe_key x) seen"] show ?thesis
      unfolding upt by (simp add: filter_map comp_def del: Un_insert_right Un_insert_left Un_iff)
  qed
qed

text \<open>
  Claim C6. Deduplication keeps, in the order of the input, exactly the records whose key
  (start timestamp, display name) does not occur earlier in the input; the result is a
  subsequence of the input, deduplicating it again changes nothing, and it is no longer
  than the input.
\<close>

theorem dedupe_first_wins:
  "dedupe xs = map (\<lambda>i. xs ! i)
                 (filter (\<lambda>i. dedupe_key (xs ! i) \<notin> dedupe_key ` set (take i xs)) [0..<length xs])
   \<and> subseq (dedupe xs) xs
   \<and> dedupe (dedupe xs) = dedupe xs
   \<and> length (dedupe xs) \<le> length xs"
proof (intro conjI)
  show "dedupe xs = map (\<lambda>i. xs ! i)
          (filter (\<lambda>i. dedupe_key (xs ! i) \<notin> dedupe_key ` set (take i xs)) [0..<length xs])"
    using keep_first_index [of "{}" xs] by (simp add: dedupe_keep_first)
  show "subseq (dedupe xs) xs"
    by (simp add: dedupe_keep_first keep_first_subseq)
  show "dedupe (dedupe xs) = dedupe xs"
    unfolding dedupe_keep_first by (rule keep_first_id) (simp_all add: keep_first_distinct)
  show "length (dedupe xs) \<le> length xs"
    by (simp add: dedupe_keep_first keep_first_length)
qed

section \<open>Properties of the filter\<close>

lemma filter_loop_eq:
  "filter_loop incl excl earliest latest classes filtered =
     filtered @ filter (\<lambda>cls. \<not> rejected incl excl earliest latest cls) classes"
  by (induction classes arbitrary: filtered) simp_all

lemma rejected_unconfigured: "\<not> rejected [] [] None None cls"
  by (simp add: rejected_def split: option.split)

lemma filter_classes_eq:
  "filter_classes classes cfg =
     filter (\<lambda>cls. \<not> rejected (patterns (include_classes cfg)) (patterns (exclude_classes cfg))
                        (earliest_hour cfg) (latest_hour cfg) cls) classes"
  by (simp add: filter_classes_def Let_def filter_loop_eq rejected_unconfigured)

lemma patterns_empty_iff: "patterns v = [] \<longleftrightarrow> list_all (\<lambda>c. c = []) (get_or [] v)"
  by (simp add: patterns_def filter_empty_conv list_all_iff)

text \<open>
  Claim C3. With \<open>incl\<close> and \<open>excl\<close> the include and exclude patterns of the
  configuration, and \<open>combined cls\<close> the lowercased display name, a space and the
  lowercased raw name: a record is rejected when there is an include pattern and none of
  them occurs in \<open>combined cls\<close>, and it is rejected when an exclude pattern occurs in
  \<open>combined cls\<close>, whatever the include patterns are.
\<close>

theorem name_checks:
  assumes "(patterns (include_classes cfg) \<noteq> []
              \<and> \<not> list_ex (\<lambda>p. sublist p (combined cls)) (patterns (include_classes cfg)))
           \<or> list_ex (\<lambda>p. sublist p (combined cls)) (patterns (exclude_classes cfg))"
  shows "cls \<notin> set (filter_classes classes cfg)"
proof -
  from assms have "rejected (patterns (include_classes cfg)) (patterns (exclude_classes cfg))
                     (earliest_hour cfg) (latest_hour cfg) cls"
    by (auto simp add: rejected_def str_in_def list_ex_iff)
  then show ?thesis by (simp add: filter_classes_eq)
qed

theorem name_checks_witness:
  "sample_class ''Spin Class'' ''spin'' 10
     \<notin> set (filter_classes [sample_class ''Gentle Yoga'' ''gentle_yoga'' 10, sample_class ''Spin Class'' ''spin'' 10]
                (no_config\<lparr>include_classes := Some [''Yoga'']\<rparr>))
   \<and> sample_class ''Gentle Yoga'' ''gentle_yoga'' 10
     \<notin> set (filter_classes [sample_class ''Gentle Yoga'' ''gentle_yoga'' 10, sample_class ''Spin Class'' ''spin'' 10]
                (no_config\<lparr>include_classes := Some [''Yoga''], exclude_classes := Some [''gentle'']\<rparr>))"
proof -
  have a: "patterns (include_classes (no_config\<lparr>include_classes := Some [''Yoga'']\<rparr>)) \<noteq> []
           \<and> \<not> list_ex (\<lambda>p. sublist p (combined (sample_class ''Spin Class'' ''spin'' 10)))
                 (patterns (include_classes (no_config\<lparr>include_classes := Some [''Yoga'']\<rparr>)))"
    by code_simp
  have b: "list_ex (\<lambda>p. sublist p (combined (sample_class ''Gentle Yoga'' ''gentle_yoga'' 10)))
             (patterns (exclude_classes
                (no_config\<lparr>include_classes := Some [''Yoga''], exclude_classes := Some [''gentle'']\<rparr>)))"
    by code_simp
  show ?thesis
    using name_checks [OF disjI1 [OF a]] name_checks [OF disjI2 [OF b]] by simp
qed

text \<open>
  Claim C4. For a record of the input that passes the name checks and has a start hour
  \<open>h\<close>: it is kept exactly when \<open>h\<close> is not below the earliest hour, where there is one,
  and is below the latest hour, where there is one.
\<close>

theorem hour_bounds:
  assumes "cls \<in> set classes" and "start_hour cls = Some h"
    and "patterns (include_classes cfg) = []
           \<or> list_ex (\<lambda>p. sublist p (combined cls)) (patterns (include_classes cfg))"
    and "\<not> list_ex (\<lambda>p. sublist p (combined cls)) (patterns (exclude_classes cfg))"
  shows "cls \<in> set (filter_classes classes cfg) \<longleftrightarrow>
           (case earliest_hour cfg of None \<Rightarrow> True | Some e \<Rightarrow> e \<le> h)
           \<and> (case latest_hour cfg of None \<Rightarrow> True | Some l \<Rightarrow> h < l)"
  using assms
  by (auto simp add: filter_classes_eq rejected_def str_in_def split: option.splits)

theorem hour_bounds_witness:
  "sample_class ''Spin Class'' ''spin'' 8
     \<notin> set (filter_classes [sample_class ''Spin Class'' ''spin'' 8, sample_class ''Spin Class'' ''spin'' 9]
                (no_config\<lparr>earliest_hour := Some 9\<rparr>))
   \<and> sample_class ''Spin Class'' ''spin'' 9
     \<in> set (filter_classes [sample_class ''Spin Class'' ''spin'' 8, sample_class ''Spin Class'' ''spin'' 9]
                (no_config\<lparr>earliest_hour := Some 9\<rparr>))
   \<and> sample_class ''Spin Class'' ''spin'' 16
     \<in> set (filter_classes [sample_class ''Spin Class'' ''spin'' 16, sample_class ''Spin Class'' ''spin'' 17]
                (no_config\<lparr>latest_hour := Some 17\<rparr>))
   \<and> sample_class ''Spin Class'' ''spin'' 17
     \<notin> set (filter_classes [sample_class ''Spin Class'' ''spin'' 16, sample_class ''Spin Class'' ''spin'' 17]
                (no_config\<lparr>latest_hour := Some 17\<rparr>))"
proof -
  have incl: "patterns (include_classes (no_config\<lparr>earliest_hour := e\<rparr>)) = []
                \<or> list_ex (\<lambda>p. sublist p (combined c))
                     (patterns (include_classes (no_config\<lparr>earliest_hour := e\<rparr>)))"
             "patterns (include_classes (no_config\<lparr>latest_hour := e\<rparr>)) = []
                \<or> list_ex (\<lambda>p. sublist p (combined c))
                     (patterns (include_classes (no_config\<lparr>latest_hour := e\<rparr>)))"
    for e c
    by (simp_all add: no_config_def patterns_def get_or_def)
  have excl: "\<not> list_ex (\<lambda>p. sublist p (combined c))
                  (patterns (exclude_classes (no_config\<lparr>earliest_hour := e\<rparr>)))"
             "\<not> list_ex (\<lambda>p. sublist p (combined c))
                  (patterns (exclude_classes (no_config\<lparr>latest_hour := e\<rparr>)))"
    for e c
    by (simp_all add: no_config_def patterns_def get_or_def)
  have hour: "start_hour (sample_class ''Spin Class'' ''spin'' n) = Some n" for n
    by (simp add: sample_class_def)
  have bounds: "earliest_hour (no_config\<lparr>earliest_hour := e\<rparr>) = e"
               "latest_hour (no_config\<lparr>earliest_hour := e\<rparr>) = None"
               "earliest_hour (no_config\<lparr>latest_hour := e\<rparr>) = None"
               "latest_hour (no_config\<lparr>latest_hour := e\<rparr>) = e"
    for e
    by (simp_all add: no_config_def)
  have 1: "sample_class ''Spin Class'' ''spin'' 8
             \<notin> set (filter_classes [sample_class ''Spin Class'' ''spin'' 8, sample_class ''Spin Class'' ''spin'' 9]
                        (no_config\<lparr>earliest_hour := Some 9\<rparr>))"
    using hour_bounds [OF _ hour incl(1) excl(1), of 8 _ "Some 9"] by (simp add: bounds)
  have 2: "sample_class ''Spin Class'' ''spin'' 9
             \<in> set (filter_classes [sample_class ''Spin Class'' ''spin'' 8, sample_class ''Spin Class'' ''spin'' 9]
                        (no_config\<lparr>earliest_hour := Some 9\<rparr>))"
    using hour_bounds [OF _ hour incl(1) excl(1), of 9 _ "Some 9"] by (simp add: bounds)
  have 3: "sample_class ''Spin Class'' ''spin'' 16
             \<in> set (filter_classes [sample_class ''Spin Class'' ''spin'' 16, sample_class ''Spin Class'' ''spin'' 17]
                        (no_config\<lparr>latest_hour := Some 17\<rparr>))"
    using hour_bounds [OF _ hour incl(2) excl(2), of 16 _ "Some 17"] by (simp add: bounds)
  have 4: "sample_class ''Spin Class'' ''spin'' 17
             \<notin> set (filter_classes [sample_class ''Spin Class'' ''spin'' 16, sample_class ''Spin Class'' ''spin'' 17]
                        (no_config\<lparr>latest_hour := Some 17\<rparr>))"
    using hour_bounds [OF _ hour incl(2) excl(2), of 17 _ "Some 17"] by (simp add: bounds)
  from 1 2 3 4 show ?thesis by blast
qed

text \<open>
  Claim C5. With no include patterns, no exclude patterns and no hour bound, the filter
  returns the list it was given.
\<close>

theorem filter_noop:
  assumes "get_or [] (include_classes cfg) = []" and "get_or [] (exclude_classes cfg) = []"
    and "earliest_hour cfg = None" and "latest_hour cfg = None"
  shows "filter_classes classes cfg = classes"
  using assms by (simp add: filter_classes_def patterns_def)

theorem filter_noop_witness:
  "filter_classes [sample_class ''Spin Class'' ''spin'' 6, sample_class ''Gentle Yoga'' ''yoga'' 10,
                   sample_class ''Spin Class'' ''spin'' 6] no_config
     = [sample_class ''Spin Class'' ''spin'' 6, sample_class ''Gentle Yoga'' ''yoga'' 10,
        sample_class ''Spin Class'' ''spin'' 6]"
  by (rule filter_noop) (simp_all add: no_config_def get_or_def)

text \<open>
  Claim C10. Empty strings among the include and exclude entries are dropped before any
  matching: when both lists hold nothing but empty strings and there is no hour bound, no
  pattern is left and the filter returns the list it was given.
\<close>

theorem empty_patterns_discarded:
  assumes "list_all (\<lambda>c. c = []) (get_or [] (include_classes cfg))"
    and "list_all (\<lambda>c. c = []) (get_or [] (exclude_classes cfg))"
    and "earliest_hour cfg = None" and "latest_hour cfg = None"
  shows "patterns (include_classes cfg) = [] \<and> patterns (exclude_classes cfg) = []
         \<and> filter_classes classes cfg = classes"
  using assms by (simp add: filter_classes_def patterns_empty_iff)

theorem empty_patterns_discarded_witness:
  "filter_classes [sample_class ''Spin Class'' ''spin'' 6, sample_class ''Gentle Yoga'' ''yoga'' 10]
     (no_config\<lparr>include_classes := Some [[], []]\<rparr>)
     = [sample_class ''Spin Class'' ''spin'' 6, sample_class ''Gentle Yoga'' ''yoga'' 10]"
  using empty_patterns_discarded [of "no_config\<lparr>include_classes := Some [[], []]\<rparr>"
          "[sample_class ''Spin Class'' ''spin'' 6, sample_class ''Gentle Yoga'' ''yoga'' 10]"]
  by (simp add: no_config_def get_or_def)

section \<open>Properties of the date arithmetic\<close>

text \<open>
  The date of a day number has that day number again, so that adding minutes to a
  datetime moves it by exactly these minutes, as the subtraction of datetimes measures
  them.
\<close>

lemma month_of_day:
  fixes r :: int and leap :: bool
  assumes "0 \<le> r" and "r \<le> 364"
  defines "month \<equiv> (r + 50) div 32"
  defines "preceding \<equiv> month_entry DAYS_BEFORE_MONTH month + (if month > 2 \<and> leap then 1 else 0)"
  shows "1 \<le> month \<and> month \<le> 12
         \<and> (preceding > r \<longrightarrow>
               2 \<le> month
               \<and> month_entry DAYS_BEFORE_MONTH (month - 1)
                   + (if month - 1 > 2 \<and> leap then 1 else 0)
                 = preceding - (month_entry DAYS_IN_MONTH (month - 1)
                                  + (if month - 1 = 2 \<and> leap then 1 else 0)))"
proof -
  have range: "1 \<le> month" "month \<le> 12"
    using assms(1,2) unfolding month_def by presburger+
  then have "month = 1 \<or> month = 2 \<or> month = 3 \<or> month = 4 \<or> month = 5 \<or> month = 6
             \<or> month = 7 \<or> month = 8 \<or> month = 9 \<or> month = 10 \<or> month = 11 \<or> month = 12"
    by presburger
  then have "preceding > r \<longrightarrow>
               2 \<le> month
               \<and> month_entry DAYS_BEFORE_MONTH (month - 1)
                   + (if month - 1 > 2 \<and> leap then 1 else 0)
                 = preceding - (month_entry DAYS_IN_MONTH (month - 1)
                                  + (if month - 1 = 2 \<and> leap then 1 else 0))"
    using assms(1)
    by (elim disjE) (simp_all add: preceding_def month_entry_def DAYS_BEFORE_MONTH_def DAYS_IN_MONTH_def)
  with range show ?thesis by simp
qed

lemma div_mod_decomp:
  fixes q r k :: int
  assumes "0 \<le> r" and "r < k"
  shows "(k * q + r) div k = q" and "(k * q + r) mod k = r"
  using assms by (simp_all add: div_pos_pos_trivial mod_pos_pos_trivial)

lemma mod_zero_shift:
  fixes q r k :: int
  assumes "0 < r" and "r \<le> k"
  shows "(k * q + r) mod k = 0 \<longleftrightarrow> r = k"
proof (cases "r = k")
  case True
  then show ?thesis by simp
next
  case False
  with assms have "(k * q + r) mod k = r"
    by (intro div_mod_decomp(2)) simp_all
  with False assms show ?thesis by simp
qed

lemma year_days:
  fixes n400 n100 n4 n1 :: int
  assumes "0 \<le> n100" "n100 \<le> 3" "0 \<le> n4" "n4 \<le> 24" "0 \<le> n1" "n1 \<le> 3"
  shows "days_before_year (n400 * 400 + 1 + n100 * 100 + n4 * 4 + n1)
           = 146097 * n400 + 36524 * n100 + 1461 * n4 + 365 * n1"
    and "is_leap (n400 * 400 + 1 + n100 * 100 + n4 * 4 + n1)
           \<longleftrightarrow> n1 = 3 \<and> (n4 \<noteq> 24 \<or> n100 = 3)"
proof -
  define y where "y = n400 * 400 + n100 * 100 + n4 * 4 + n1"
  have "y = 4 * (100 * n400 + 25 * n100 + n4) + n1" by (simp add: y_def)
  then have d4: "y div 4 = 100 * n400 + 25 * n100 + n4"
    using div_mod_decomp(1) [of n1 4 "100 * n400 + 25 * n100 + n4"] assms by simp
  have "y = 100 * (4 * n400 + n100) + (4 * n4 + n1)" by (simp add: y_def)
  then have d100: "y div 100 = 4 * n400 + n100"
    using div_mod_decomp(1) [of "4 * n4 + n1" 100 "4 * n400 + n100"] assms by simp
  have "y = 400 * n400 + (100 * n100 + 4 * n4 + n1)" by (simp add: y_def)
  then have d400: "y div 400 = n400"
    using div_mod_decomp(1) [of "100 * n100 + 4 * n4 + n1" 400 n400] assms by simp
  have year: "n400 * 400 + 1 + n100 * 100 + n4 * 4 + n1 = y + 1" by (simp add: y_def)
  have "days_before_year (y + 1) = y * 365 + y div 4 - y div 100 + y div 400"
    by (simp add: days_before_year_def Let_def)
  also have "\<dots> = 146097 * n400 + 36524 * n100 + 1461 * n4 + 365 * n1"
    unfolding d4 d100 d400 by (simp add: y_def)
  finally show "days_before_year (n400 * 400 + 1 + n100 * 100 + n4 * 4 + n1)
           = 146097 * n400 + 36524 * n100 + 1461 * n4 + 365 * n1"
    unfolding year .
  have e4: "y + 1 = 4 * (100 * n400 + 25 * n100 + n4) + (n1 + 1)" by (simp add: y_def)
  have "(4 * (100 * n400 + 25 * n100 + n4) + (n1 + 1)) mod 4 = 0 \<longleftrightarrow> n1 + 1 = 4"
    by (rule mod_zero_shift) (use assms in simp_all)
  then have m4: "(y + 1) mod 4 = 0 \<longleftrightarrow> n1 = 3"
    unfolding e4 [symmetric] by auto
  have e100: "y + 1 = 100 * (4 * n400 + n100) + (4 * n4 + n1 + 1)" by (simp add: y_def)
  have "(100 * (4 * n400 + n100) + (4 * n4 + n1 + 1)) mod 100 = 0 \<longleftrightarrow> 4 * n4 + n1 + 1 = 100"
    by (rule mod_zero_shift) (use assms in simp_all)
  moreover have "4 * n4 + n1 + 1 = 100 \<longleftrightarrow> n1 = 3 \<and> n4 = 24"
    using assms by linarith
  ultimately have m100: "(y + 1) mod 100 = 0 \<longleftrightarrow> n1 = 3 \<and> n4 = 24"
    unfolding e100 [symmetric] by simp
  have e400: "y + 1 = 400 * n400 + (100 * n100 + 4 * n4 + n1 + 1)" by (simp add: y_def)
  have "(400 * n400 + (100 * n100 + 4 * n4 + n1 + 1)) mod 400 = 0
          \<longleftrightarrow> 100 * n100 + 4 * n4 + n1 + 1 = 400"
    by (rule mod_zero_shift) (use assms in simp_all)
  moreover have "100 * n100 + 4 * n4 + n1 + 1 = 400 \<longleftrightarrow> n1 = 3 \<and> n4 = 24 \<and> n100 = 3"
    using assms by linarith
  ultimately have m400: "(y + 1) mod 400 = 0 \<longleftrightarrow> n1 = 3 \<and> n4 = 24 \<and> n100 = 3"
    unfolding e400 [symmetric] by simp
  show "is_leap (n400 * 400 + 1 + n100 * 100 + n4 * 4 + n1)
               \<longleftrightarrow> n1 = 3 \<and> (n4 \<noteq> 24 \<or> n100 = 3)"
    unfolding year is_leap_def using m4 m100 m400 by auto
qed

lemma ymd2ord_ord2ymd:
  assumes "ord2ymd n = (y, m, d)"
  shows "ymd2ord y m d = n"
proof -
  define n0 where "n0 = n - 1"
  define n400 where "n400 = n0 div 146097"
  define r1 where "r1 = n0 mod 146097"
  define n100 where "n100 = r1 div 36524"
  define r2 where "r2 = r1 mod 36524"
  define n4 where "n4 = r2 div 1461"
  define r3 where "r3 = r2 mod 1461"
  define n1 where "n1 = r3 div 365"
  define r4 where "r4 = r3 mod 365"
  define leap where "leap \<longleftrightarrow> n1 = 3 \<and> (n4 \<noteq> 24 \<or> n100 = 3)"
  define month where "month = (r4 + 50) div 32"
  define preceding where
    "preceding = month_entry DAYS_BEFORE_MONTH month + (if month > 2 \<and> leap then 1 else 0)"
  have b: "0 \<le> r1" "r1 < 146097" "0 \<le> r2" "r2 < 36524" "0 \<le> r3" "r3 < 1461"
          "0 \<le> r4" "r4 < 365"
    by (simp_all add: r1_def r2_def r3_def r4_def)
  have e: "n = 146097 * n400 + r1 + 1" "r1 = 36524 * n100 + r2" "r2 = 1461 * n4 + r3"
          "r3 = 365 * n1 + r4"
    by (simp_all add: n0_def n400_def r1_def n100_def r2_def n4_def r3_def n1_def r4_def)
  have c: "0 \<le> n100" "n100 \<le> 4" "0 \<le> n4" "n4 \<le> 24" "0 \<le> n1" "n1 \<le> 4"
    using b e by linarith+
  have result: "ord2ymd n =
      (if n1 = 4 \<or> n100 = 4 then (n400 * 400 + 1 + n100 * 100 + n4 * 4 + n1 - 1, 12, 31)
       else if preceding > r4
         then (n400 * 400 + 1 + n100 * 100 + n4 * 4 + n1, month - 1,
               r4 - (preceding - (month_entry DAYS_IN_MONTH (month - 1)
                                    + (if month - 1 = 2 \<and> leap then 1 else 0))) + 1)
         else (n400 * 400 + 1 + n100 * 100 + n4 * 4 + n1, month, r4 - preceding + 1))"
    by (simp only: ord2ymd_def Let_def DI400Y_def DI100Y_def DI4Y_def n0_def n400_def r1_def
          n100_def r2_def n4_def r3_def n1_def r4_def leap_def month_def preceding_def)
  consider (century) "n100 = 4" | (year) "n100 \<le> 3" "n1 = 4" | (day) "n100 \<le> 3" "n1 \<le> 3"
    using c by linarith
  then show ?thesis
  proof cases
    case century
    with b e c have z: "n4 = 0" "n1 = 0" "r1 = 146096" by linarith+
    from century z result assms have ymd: "y = n400 * 400 + 1 + 3 * 100 + 24 * 4 + 3" "m = 12" "d = 31"
      by simp_all
    have "days_before_year y = 146097 * n400 + 36524 * 3 + 1461 * 24 + 365 * 3"
      and "is_leap y"
      unfolding ymd(1) using year_days [of 3 24 3 n400] by simp_all
    then show ?thesis
      using e(1) z(3)
      by (simp add: ymd2ord_def days_before_month_def month_entry_def DAYS_BEFORE_MONTH_def ymd(2,3))
  next
    case year
    with b e c have z: "r4 = 0" "n4 \<le> 23" by linarith+
    from year result assms have ymd: "y = n400 * 400 + 1 + n100 * 100 + n4 * 4 + 3" "m = 12" "d = 31"
      by simp_all
    have "days_before_year y = 146097 * n400 + 36524 * n100 + 1461 * n4 + 365 * 3"
      and "is_leap y"
      unfolding ymd(1) using year_days [of n100 n4 3 n400] c year z by simp_all
    then show ?thesis
      using e year z
      by (simp add: ymd2ord_def days_before_month_def month_entry_def DAYS_BEFORE_MONTH_def ymd(2,3))
  next
    case day
    have yd: "days_before_year (n400 * 400 + 1 + n100 * 100 + n4 * 4 + n1)
                = 146097 * n400 + 36524 * n100 + 1461 * n4 + 365 * n1"
      and yl: "is_leap (n400 * 400 + 1 + n100 * 100 + n4 * 4 + n1) \<longleftrightarrow> leap"
      unfolding leap_def using year_days [of n100 n4 n1 n400] c day by simp_all
    have r: "0 \<le> r4" "r4 \<le> 364" using b by simp_all
    note md = month_of_day [OF r, of leap, folded month_def, folded preceding_def]
    show ?thesis
    proof (cases "preceding > r4")
      case True
      with day result assms have ymd: "y = n400 * 400 + 1 + n100 * 100 + n4 * 4 + n1"
        "m = month - 1"
        "d = r4 - (preceding - (month_entry DAYS_IN_MONTH (month - 1)
                                    + (if month - 1 = 2 \<and> leap then 1 else 0))) + 1"
        by simp_all
      from md True have "month_entry DAYS_BEFORE_MONTH (month - 1)
                   + (if month - 1 > 2 \<and> leap then 1 else 0)
                 = preceding - (month_entry DAYS_IN_MONTH (month - 1)
                                  + (if month - 1 = 2 \<and> leap then 1 else 0))"
        by simp
      then show ?thesis
        using e yd yl by (simp add: ymd2ord_def days_before_month_def ymd)
    next
      case False
      with day result assms have ymd: "y = n400 * 400 + 1 + n100 * 100 + n4 * 4 + n1"
        "m = month" "d = r4 - preceding + 1"
        by simp_all
      show ?thesis
        using e yd yl by (simp add: ymd2ord_def days_before_month_def ymd preceding_def)
    qed
  qed
qed

lemma seconds_split:
  fixes secs :: int
  shows "secs mod 3600 mod 60 + secs mod 3600 div 60 * 60 + secs div 3600 * 3600 = secs"
proof -
  have "secs mod 3600 mod 60 + secs mod 3600 div 60 * 60 = secs mod 3600"
    by (simp add: mod_div_mult_eq)
  then show ?thesis by (simp add: mod_div_mult_eq)
qed

lemma add_minutes_difference:
  assumes "add_minutes dt m = Inr end_dt"
  shows "sub_datetime end_dt dt = Inr (m * 60000000)"
proof -
  define total where "total = toordinal dt * 86400 + seconds_of_day dt + m * 60"
  define days where "days = total div 86400"
  define secs where "secs = total mod 86400"
  obtain y mo d where ymd: "ord2ymd days = (y, mo, d)"
    by (cases "ord2ymd days") auto
  from assms have end_dt:
    "end_dt = dt\<lparr>dt_year := y, dt_month := mo, dt_day := d,
                 dt_hour := secs div 3600, dt_minute := secs mod 3600 div 60,
                 dt_second := secs mod 3600 mod 60\<rparr>"
    unfolding add_minutes_def Let_def total_def [symmetric] days_def [symmetric] secs_def [symmetric]
    by (simp add: ymd split: if_splits)
  have ord: "toordinal end_dt = days"
    using ymd2ord_ord2ymd [OF ymd] by (simp add: toordinal_def end_dt)
  have sod: "seconds_of_day end_dt = secs"
    using seconds_split [of secs] by (simp add: seconds_of_day_def end_dt)
  have "days * 86400 + secs = total"
    by (simp add: days_def secs_def)
  then have "(toordinal end_dt - toordinal dt) * 86400 + (seconds_of_day end_dt - seconds_of_day dt)
               = m * 60"
    unfolding ord sod by (simp add: total_def)
  then show ?thesis
    by (simp add: sub_datetime_def Let_def end_dt [THEN arg_cong, of dt_utcoffset]
                  end_dt [THEN arg_cong, of dt_microsecond])
qed

section \<open>Properties of the serializer\<close>

lemma event_of_skip_iff:
  "event_of fromiso md5 now d cls = Inr None \<longleftrightarrow> \<not> parseable_start fromiso cls"
  by (auto simp add: event_of_def parseable_start_def Let_def split: option.splits sum.splits)

text \<open>
  The loop body raises on a record with a usable start timestamp whose end time is out of
  range, or which has no name.
\<close>

lemma event_of_raises_iff:
  "isl (event_of fromiso md5 now d cls) \<longleftrightarrow>
     (\<exists>s start. start_iso cls = Some s \<and> s \<noteq> [] \<and> fromiso s = Some start
        \<and> (isl (add_minutes start (effective_duration d cls)) \<or> name cls = None))"
  by (auto simp add: event_of_def Let_def get_or_def split: option.splits sum.splits)


lemma ics_loop_blocks:
  "ics_loop fromiso md5 now d classes lines = Inr out \<Longrightarrow>
     \<exists>blocks. list_all2 (\<lambda>cls b. event_of fromiso md5 now d cls = Inr (Some b))
                  (filter (parseable_start fromiso) classes) blocks
              \<and> out = lines @ concat blocks"
proof (induction classes arbitrary: lines)
  case Nil
  then show ?case by simp
next
  case (Cons cls rest)
  show ?case
  proof (cases "event_of fromiso md5 now d cls")
    case (Inl e)
    with Cons.prems show ?thesis by simp
  next
    case (Inr r)
    show ?thesis
    proof (cases r)
      case None
      with Inr have skip: "\<not> parseable_start fromiso cls"
        by (simp add: event_of_skip_iff)
      from Cons.prems Inr None have "ics_loop fromiso md5 now d rest lines = Inr out" by simp
      from Cons.IH [OF this] skip show ?thesis by simp
    next
      case (Some ls)
      with Inr have keep: "parseable_start fromiso cls"
        using event_of_skip_iff [of fromiso md5 now d cls] by auto
      from Cons.prems Inr Some have "ics_loop fromiso md5 now d rest (lines @ ls) = Inr out"
        by simp
      from Cons.IH [OF this] obtain blocks where
        "list_all2 (\<lambda>cls b. event_of fromiso md5 now d cls = Inr (Some b))
           (filter (parseable_start fromiso) rest) blocks"
        and "out = (lines @ ls) @ concat blocks"
        by blast
      with keep Inr Some show ?thesis
        by (intro exI [of _ "ls # blocks"]) simp
    qed
  qed
qed



lemma event_of_Some:
  "event_of fromiso md5 now d cls = Inr (Some b) \<Longrightarrow>
     \<exists>s start end_dt nm. start_iso cls = Some s \<and> s \<noteq> [] \<and> fromiso s = Some start
        \<and> add_minutes start (effective_duration d cls) = Inr end_dt \<and> name cls = Some nm
        \<and> b = event_lines md5 now cls s start end_dt nm"
  by (auto simp add: event_of_def Let_def get_or_def split: option.splits sum.splits if_splits)



lemma effective_duration_cases:
  "effective_duration dflt cls =
     (case duration_minutes cls of None \<Rightarrow> dflt | Some m \<Rightarrow> if 0 < m then m else dflt)"
  by (simp add: effective_duration_def get_or_def Let_def split: option.splits)

lemma ics_lines_blocks:
  assumes "ics_lines fromiso md5 now classes cfg = Inr lines"
  shows "\<exists>blocks. list_all2 (\<lambda>cls b. event_of fromiso md5 now (default_duration cfg) cls = Inr (Some b))
                      (filter (parseable_start fromiso) classes) blocks
                  \<and> lines = calendar_header (get_or default_calendar_name (calendar_name cfg))
                             @ concat blocks @ [''END:VCALENDAR'']"
proof -
  from assms obtain out where
    loop: "ics_loop fromiso md5 now (default_duration cfg) classes
             (calendar_header (get_or default_calendar_name (calendar_name cfg))) = Inr out"
    and lines: "lines = out @ [''END:VCALENDAR'']"
    by (auto simp add: ics_lines_def default_duration_def Let_def split: sum.splits)
  from ics_loop_blocks [OF loop] lines show ?thesis by auto
qed




lemma header_ends:
  "hd (calendar_header cal_name) = ''BEGIN:VCALENDAR''"
  "count_list (calendar_header cal_name) ''END:VEVENT'' = 0"
  by (simp_all add: calendar_header_def)

lemma sample_lines_dtend:
  "map_sum id (\<lambda>ls. [ls ! 28, ls ! 39, ls ! 50])
     (ics_lines widget_fromiso zero_digest sample_now [water_class, spin_class, early_end_class]
        no_config)
   = Inr [''DTEND;TZID=America/Los_Angeles:20260216T110000'',
          ''DTEND;TZID=America/Los_Angeles:20260216T064500'',
          ''DTEND;TZID=America/Los_Angeles:20260217T094500'']"
  by code_simp

text \<open>
  Claim C7. In a document that the serializer returns, the entry of every record ends at
  its start plus the record's duration in minutes when that duration is present and
  positive, and at its start plus the default duration (the configured one, 45 minutes
  when none is configured) when the duration is absent, zero or negative: the end time
  printed in the entry lies exactly that many minutes after the start time printed in it.
\<close>

theorem entry_end_time:
  assumes "generate_ics fromiso md5 now classes cfg = Inr document"
  shows "\<exists>blocks.
           document = join [CHR 0x0D, CHR 0x0A]
                        (calendar_header (get_or default_calendar_name (calendar_name cfg))
                         @ concat blocks @ [''END:VCALENDAR''])
           \<and> list_all2
               (\<lambda>cls b. \<exists>s start end_dt minutes.
                  start_iso cls = Some s \<and> fromiso s = Some start
                  \<and> minutes
                      = (case duration_minutes cls of
                           None \<Rightarrow> get_or 45 (default_class_duration_minutes cfg)
                         | Some m \<Rightarrow>
                             if 0 < m then m else get_or 45 (default_class_duration_minutes cfg))
                  \<and> add_minutes start minutes = Inr end_dt
                  \<and> sub_datetime end_dt start = Inr (minutes * 60000000)
                  \<and> length b = 11
                  \<and> b ! 0 = ''BEGIN:VEVENT''
                  \<and> b ! 3 = ''DTSTART;TZID=America/Los_Angeles:'' @ strftime_compact start
                  \<and> b ! 4 = ''DTEND;TZID=America/Los_Angeles:'' @ strftime_compact end_dt
                  \<and> b ! 10 = ''END:VEVENT'')
               (filter (parseable_start fromiso) classes) blocks"
proof -
  from assms obtain lines where
    returned: "ics_lines fromiso md5 now classes cfg = Inr lines"
    and document: "document = join [CHR 0x0D, CHR 0x0A] lines"
    by (auto simp add: generate_ics_def split: sum.splits)
  from ics_lines_blocks [OF returned] obtain blocks where
    blocks: "list_all2 (\<lambda>cls b. event_of fromiso md5 now (default_duration cfg) cls = Inr (Some b))
               (filter (parseable_start fromiso) classes) blocks"
    and lines: "lines = calendar_header (get_or default_calendar_name (calendar_name cfg))
                        @ concat blocks @ [''END:VCALENDAR'']"
    by blast
  have step: "\<exists>s start end_dt minutes.
                  start_iso cls = Some s \<and> fromiso s = Some start
                  \<and> minutes
                      = (case duration_minutes cls of
                           None \<Rightarrow> get_or 45 (default_class_duration_minutes cfg)
                         | Some m \<Rightarrow>
                             if 0 < m then m else get_or 45 (default_class_duration_minutes cfg))
                  \<and> add_minutes start minutes = Inr end_dt
                  \<and> sub_datetime end_dt start = Inr (minutes * 60000000)
                  \<and> length b = 11
                  \<and> b ! 0 = ''BEGIN:VEVENT''
                  \<and> b ! 3 = ''DTSTART;TZID=America/Los_Angeles:'' @ strftime_compact start
                  \<and> b ! 4 = ''DTEND;TZID=America/Los_Angeles:'' @ strftime_compact end_dt
                  \<and> b ! 10 = ''END:VEVENT''"
    if "event_of fromiso md5 now (default_duration cfg) cls = Inr (Some b)" for cls b
  proof -
    from event_of_Some [OF that] obtain s start end_dt nm where
      "start_iso cls = Some s" "fromiso s = Some start"
      and added: "add_minutes start (effective_duration (default_duration cfg) cls) = Inr end_dt"
      and "b = event_lines md5 now cls s start end_dt nm"
      by blast
    with add_minutes_difference [OF added] show ?thesis
      by (simp add: effective_duration_cases default_duration_def
                    event_lines_def Let_def)
  qed
  from blocks have "list_all2
               (\<lambda>cls b. \<exists>s start end_dt minutes.
                  start_iso cls = Some s \<and> fromiso s = Some start
                  \<and> minutes
                      = (case duration_minutes cls of
                           None \<Rightarrow> get_or 45 (default_class_duration_minutes cfg)
                         | Some m \<Rightarrow>
                             if 0 < m then m else get_or 45 (default_class_duration_minutes cfg))
                  \<and> add_minutes start minutes = Inr end_dt
                  \<and> sub_datetime end_dt start = Inr (minutes * 60000000)
                  \<and> length b = 11
                  \<and> b ! 0 = ''BEGIN:VEVENT''
                  \<and> b ! 3 = ''DTSTART;TZID=America/Los_Angeles:'' @ strftime_compact start
                  \<and> b ! 4 = ''DTEND;TZID=America/Los_Angeles:'' @ strftime_compact end_dt
                  \<and> b ! 10 = ''END:VEVENT'')
               (filter (parseable_start fromiso) classes) blocks"
    by (rule list_all2_mono) (rule step)
  with lines document show ?thesis by blast
qed

theorem entry_end_time_witness:
  "(\<exists>blocks.
      projr (generate_ics widget_fromiso zero_digest sample_now
               [water_class, spin_class, early_end_class] no_config)
        = join [CHR 0x0D, CHR 0x0A]
            (calendar_header (get_or default_calendar_name (calendar_name no_config))
             @ concat blocks @ [''END:VCALENDAR''])
      \<and> list_all2
          (\<lambda>cls b. \<exists>s start end_dt minutes.
             start_iso cls = Some s \<and> widget_fromiso s = Some start
             \<and> minutes
                 = (case duration_minutes cls of
                      None \<Rightarrow> get_or 45 (default_class_duration_minutes no_config)
                    | Some m \<Rightarrow>
                        if 0 < m then m else get_or 45 (default_class_duration_minutes no_config))
             \<and> add_minutes start minutes = Inr end_dt
             \<and> sub_datetime end_dt start = Inr (minutes * 60000000)
             \<and> length b = 11
             \<and> b ! 0 = ''BEGIN:VEVENT''
             \<and> b ! 3 = ''DTSTART;TZID=America/Los_Angeles:'' @ strftime_compact start
             \<and> b ! 4 = ''DTEND;TZID=America/Los_Angeles:'' @ strftime_compact end_dt
             \<and> b ! 10 = ''END:VEVENT'')
          (filter (parseable_start widget_fromiso) [water_class, spin_class, early_end_class])
          blocks)
   \<and> map_sum id (\<lambda>ls. [ls ! 28, ls ! 39, ls ! 50])
         (ics_lines widget_fromiso zero_digest sample_now [water_class, spin_class, early_end_class]
            no_config)
       = Inr [''DTEND;TZID=America/Los_Angeles:20260216T110000'',
              ''DTEND;TZID=America/Los_Angeles:20260216T064500'',
              ''DTEND;TZID=America/Los_Angeles:20260217T094500'']"
proof -
  have "\<not> isl (generate_ics widget_fromiso zero_digest sample_now
                  [water_class, spin_class, early_end_class] no_config)"
    using sample_lines_dtend
    by (cases "ics_lines widget_fromiso zero_digest sample_now
                 [water_class, spin_class, early_end_class] no_config")
       (simp_all add: generate_ics_def)
  then have "generate_ics widget_fromiso zero_digest sample_now
               [water_class, spin_class, early_end_class] no_config
             = Inr (projr (generate_ics widget_fromiso zero_digest sample_now
                             [water_class, spin_class, early_end_class] no_config))"
    by simp
  from entry_end_time [OF this] sample_lines_dtend show ?thesis by blast
qed






end
